theory Spec2Isabelle
  imports Main "HOL-Library.AList" "HOL-Library.Char_ord" "HOL-Library.List_Lexorder"
begin

section \<open>The entities an OrbiterProject holds\<close>

text \<open>
  The entity classes are imported by \<^verbatim>\<open>project.py\<close> from sibling modules. The fields
  below are the ones \<^verbatim>\<open>project.py\<close> reads (\<^verbatim>\<open>pool.name\<close>, \<^verbatim>\<open>connection.conn_id\<close>,
  \<^verbatim>\<open>variable.key\<close>, \<^verbatim>\<open>env_var.key\<close>, \<^verbatim>\<open>include.filepath\<close>, \<^verbatim>\<open>r.package\<close>,
  \<^verbatim>\<open>r.sys_package\<close>) and the ones its doctests print. Two records cannot share a
  field name, so the \<^verbatim>\<open>key\<close> and \<^verbatim>\<open>value\<close> of a variable and of an env var carry a
  prefix. Entities compare by value.
\<close>

record OrbiterPool =
  name :: string
  description :: string
  slots :: int

record OrbiterConnection =
  conn_id :: string
  conn_type :: string

record OrbiterVariable =
  var_key :: string
  var_value :: string

record OrbiterEnvVar =
  env_key :: string
  env_value :: string

record OrbiterInclude =
  filepath :: string
  contents :: string

record OrbiterRequirement =
  names :: "string list"
  package :: "string option"
  module :: "string option"
  sys_package :: "string option"

section \<open>Exceptions and arguments\<close>

datatype error =
    ValidationError
  | TypeError
  | RuntimeError string
  | KeyError string
  | RecursionError
  | FileNotFoundError
  | FileExistsError
  | NotADirectoryError
  | IsADirectoryError

text \<open>
  A method that mutates \<^verbatim>\<open>self\<close> is a function from the state before the call to the
  pair of the exception it raised, if any, and the state it left behind.
\<close>

type_synonym 's outcome = "error option \<times> 's"

text \<open>
  Every \<^verbatim>\<open>add_*\<close> method is annotated \<^verbatim>\<open>C | Iterable[C]\<close> and wrapped in pydantic's
  \<^verbatim>\<open>validate_call\<close> (the last lines of the module). The method body never sees what
  the caller passed, only what pydantic's validation made of it. Validation of a value
  against \<^verbatim>\<open>C\<close> accepts an instance of \<^verbatim>\<open>C\<close> as it is, accepts a value it can turn into
  one (a dict of the fields of \<^verbatim>\<open>C\<close>) as the instance built from it, and rejects every
  other value. An argument is therefore one of: a value accepted as a \<^verbatim>\<open>C\<close>; some other
  iterable; or a value that is neither. pydantic checks an \<^verbatim>\<open>Iterable[C]\<close> argument only
  for being iterable when the call is made, and validates each item when the loop of the
  method body draws it. A \<^verbatim>\<open>str\<close> passed in place of an entity is an iterable of
  characters, each of them rejected. \<open>Valid x\<close> is an item that validation accepts, \<open>x\<close>
  being the entity the body receives for it; \<open>Invalid\<close> is an item that validation rejects.
\<close>

datatype 'a item = Valid 'a | Invalid

datatype 'a arg = Single 'a | Many "'a item list" | NotIterable

text \<open>\<^verbatim>\<open>for x in ([xs] if isinstance(xs, C) else xs): body\<close>, under \<^verbatim>\<open>validate_call\<close>.\<close>

fun for_each :: "('a \<Rightarrow> 's \<Rightarrow> 's) \<Rightarrow> 'a item list \<Rightarrow> 's \<Rightarrow> 's outcome" where
  "for_each body [] s = (None, s)"
| "for_each body (Invalid # xs) s = (Some ValidationError, s)"
| "for_each body (Valid x # xs) s = for_each body xs (body x s)"

definition validate_call :: "('a item list \<Rightarrow> 's \<Rightarrow> 's outcome) \<Rightarrow> 'a arg \<Rightarrow> 's \<Rightarrow> 's outcome" where
  "validate_call loop a s =
     (case a of
        NotIterable \<Rightarrow> (Some ValidationError, s)
      | Single x \<Rightarrow> loop [Valid x] s
      | Many xs \<Rightarrow> loop xs s)"

section \<open>The task graph\<close>

text \<open>
  What \<^verbatim>\<open>_add_recursively\<close> can observe of a Python value: whether it is a \<^verbatim>\<open>str\<close>;
  the six attributes it probes with \<^verbatim>\<open>hasattr\<close> (\<open>None\<close> when the attribute is missing
  or falsy); whether it is an \<^verbatim>\<open>OrbiterTaskGroup\<close> and its \<^verbatim>\<open>tasks\<close>; and the values of
  \<^verbatim>\<open>__dict__ | model_extra\<close>. A list, tuple, set or dict has none of the attributes and
  no \<^verbatim>\<open>__dict__\<close>; its items are kept in the model so that nesting can be talked about.
  \<open>Obj c g members vals\<close> is an object with the probed attributes \<open>c\<close>, which is a task
  group (\<open>g\<close>) with the tasks \<open>members\<close> or not, and whose \<^verbatim>\<open>__dict__ | model_extra\<close> has
  the values \<open>vals\<close>; \<open>Prim\<close> is a number, a boolean or \<^verbatim>\<open>None\<close>.
\<close>

record carried =
  orbiter_pool :: "OrbiterPool arg option"
  orbiter_conns :: "OrbiterConnection arg option"
  orbiter_vars :: "OrbiterVariable arg option"
  orbiter_env_vars :: "OrbiterEnvVar arg option"
  orbiter_includes :: "OrbiterInclude arg option"
  imports' :: "OrbiterRequirement arg option"

datatype thing =
    Str string
  | Prim
  | Container "thing list"
  | Obj carried bool "thing list" "thing list"

text \<open>
  An \<^verbatim>\<open>OrbiterDAG\<close>: \<^verbatim>\<open>tasks\<close> is its dict of tasks by task id, \<open>attrs\<close> the six probed
  attributes of the DAG object itself, \<open>dict_values\<close> the values of its
  \<^verbatim>\<open>__dict__ | model_extra\<close> (its schedule and callbacks among them).
\<close>

record OrbiterDAG =
  dag_id :: string
  file_path :: string
  tasks :: "(string \<times> thing) list"
  attrs :: carried
  dict_values :: "thing list"

definition dag_thing :: "OrbiterDAG \<Rightarrow> thing" where
  "dag_thing dag = Obj (attrs dag) False [] (dict_values dag)"

section \<open>The project\<close>

text \<open>
  A dict is an association list in insertion order; \<^verbatim>\<open>d[k] = v\<close> is \<open>AList.update\<close>
  (an existing key keeps its place, a new key goes last). The set of requirements is
  the list of its elements in the order Python iterates them, which no claim may depend on.
\<close>

record OrbiterProject =
  dags :: "(string \<times> OrbiterDAG) list"
  requirements :: "OrbiterRequirement list"
  pools :: "(string \<times> OrbiterPool) list"
  connections :: "(string \<times> OrbiterConnection) list"
  variables :: "(string \<times> OrbiterVariable) list"
  env_vars :: "(string \<times> OrbiterEnvVar) list"
  includes' :: "(string \<times> OrbiterInclude) list"

definition OrbiterProject_init :: OrbiterProject where
  "OrbiterProject_init =
     \<lparr>dags = [], requirements = [], pools = [], connections = [], variables = [],
      env_vars = [], includes' = []\<rparr>"

text \<open>
  The operations of the entity classes that \<^verbatim>\<open>project.py\<close> calls and that live in
  modules outside it: \<^verbatim>\<open>OrbiterPool.__add__\<close>, \<^verbatim>\<open>OrbiterDAG.__add__\<close>, \<^verbatim>\<open>str(dag)\<close> and the
  \<^verbatim>\<open>render()\<close> of each entity. They are parameters of the model. What a \<^verbatim>\<open>render()\<close>
  returns (a record for the settings document, text for a file) is kept as text.
  \<open>safe_dump\<close> is the text \<^verbatim>\<open>yaml.safe_dump\<close> writes for the settings document with the
  given pools, variables and connections.

  Two numbers say how many interpreter frames the calls that \<^verbatim>\<open>_add_recursively\<close> makes
  on a thing open below its own frame, at their deepest. \<open>probe_frames\<close> is for the probes
  (\<^verbatim>\<open>hasattr\<close>, which reaches pydantic's \<^verbatim>\<open>__getattr__\<close> when the attribute is missing, and
  \<^verbatim>\<open>isinstance\<close> against a pydantic class, which reaches its metaclass's
  \<^verbatim>\<open>__instancecheck__\<close>); \<open>call_frames\<close> is for a call of one of the wrapped \<^verbatim>\<open>add_*\<close>
  methods (pydantic's wrapper, the method's own frame, and what the method calls). Both
  depend on pydantic and on the entity classes; the model takes one number for all the
  probes and one for all the methods.
\<close>

record entity_ops =
  pool_add :: "OrbiterPool \<Rightarrow> OrbiterPool \<Rightarrow> OrbiterPool"
  dag_add :: "OrbiterDAG \<Rightarrow> OrbiterDAG \<Rightarrow> OrbiterDAG"
  dag_str :: "OrbiterDAG \<Rightarrow> string"
  pool_render :: "OrbiterPool \<Rightarrow> string"
  variable_render :: "OrbiterVariable \<Rightarrow> string"
  connection_render :: "OrbiterConnection \<Rightarrow> string"
  include_render :: "OrbiterInclude \<Rightarrow> string"
  env_var_render :: "OrbiterEnvVar \<Rightarrow> string"
  safe_dump :: "string list \<Rightarrow> string list \<Rightarrow> string list \<Rightarrow> string"
  probe_frames :: nat
  call_frames :: nat

subsection \<open>The per-kind add operations\<close>

definition add_connections :: "OrbiterConnection arg \<Rightarrow> OrbiterProject \<Rightarrow> OrbiterProject outcome" where
  "add_connections =
     validate_call (for_each (\<lambda>connection self.
       self\<lparr>connections := AList.update (conn_id connection) connection (connections self)\<rparr>))"

definition add_env_vars :: "OrbiterEnvVar arg \<Rightarrow> OrbiterProject \<Rightarrow> OrbiterProject outcome" where
  "add_env_vars =
     validate_call (for_each (\<lambda>env_var self.
       self\<lparr>env_vars := AList.update (env_key env_var) env_var (env_vars self)\<rparr>))"

definition add_includes :: "OrbiterInclude arg \<Rightarrow> OrbiterProject \<Rightarrow> OrbiterProject outcome" where
  "add_includes =
     validate_call (for_each (\<lambda>inc self.
       self\<lparr>includes' := AList.update (filepath inc) inc (includes' self)\<rparr>))"

definition add_variables :: "OrbiterVariable arg \<Rightarrow> OrbiterProject \<Rightarrow> OrbiterProject outcome" where
  "add_variables =
     validate_call (for_each (\<lambda>variable self.
       self\<lparr>variables := AList.update (var_key variable) variable (variables self)\<rparr>))"

definition add_pool :: "entity_ops \<Rightarrow> OrbiterPool \<Rightarrow> OrbiterProject \<Rightarrow> OrbiterProject" where
  "add_pool ops pool self =
     (case map_of (pools self) (name pool) of
        Some existing \<Rightarrow>
          self\<lparr>pools := AList.update (name pool) (pool_add ops existing pool) (pools self)\<rparr>
      | None \<Rightarrow> self\<lparr>pools := AList.update (name pool) pool (pools self)\<rparr>)"

definition add_pools :: "entity_ops \<Rightarrow> OrbiterPool arg \<Rightarrow> OrbiterProject \<Rightarrow> OrbiterProject outcome" where
  "add_pools ops = validate_call (for_each (add_pool ops))"

text \<open>\<^verbatim>\<open>self.requirements.add(requirement)\<close>: an element already in the set is not added again.\<close>

definition set_add :: "'a \<Rightarrow> 'a list \<Rightarrow> 'a list" where
  "set_add x xs = (if x \<in> set xs then xs else xs @ [x])"

definition add_requirements :: "OrbiterRequirement arg \<Rightarrow> OrbiterProject \<Rightarrow> OrbiterProject outcome" where
  "add_requirements =
     validate_call (for_each (\<lambda>requirement self.
       self\<lparr>requirements := set_add requirement (requirements self)\<rparr>))"

subsection \<open>Discovering what a workflow carries\<close>

text \<open>
  \<^verbatim>\<open>if hasattr(thing, "orbiter_pool") and (pool := thing.orbiter_pool): self.add_pools(pool)\<close>
  and its five siblings, in the order of the source. An exception raised by one of the
  add operations ends the walk. Each of these calls goes through pydantic's wrapper and
  opens frames of its own: with \<open>frames\<close> frames left below the frame of the walk, a call
  that needs more raises \<^verbatim>\<open>RecursionError\<close>, which the model takes to happen before the
  method has changed anything. An attribute that is missing or falsy causes no call.
\<close>

definition and_then :: "'s outcome \<Rightarrow> ('s \<Rightarrow> 's outcome) \<Rightarrow> 's outcome" where
  "and_then r f = (case r of (None, s) \<Rightarrow> f s | (Some e, s) \<Rightarrow> (Some e, s))"

definition probe :: "nat \<Rightarrow> nat \<Rightarrow> 'a option \<Rightarrow> ('a \<Rightarrow> 's \<Rightarrow> 's outcome) \<Rightarrow> 's \<Rightarrow> 's outcome" where
  "probe frames needed attr add s =
     (case attr of
        None \<Rightarrow> (None, s)
      | Some v \<Rightarrow> if frames < needed then (Some RecursionError, s) else add v s)"

definition add_carried :: "entity_ops \<Rightarrow> nat \<Rightarrow> carried \<Rightarrow> OrbiterProject \<Rightarrow> OrbiterProject outcome" where
  "add_carried ops frames c self =
     and_then (probe frames (call_frames ops) (orbiter_pool c) (add_pools ops) self) (\<lambda>self.
     and_then (probe frames (call_frames ops) (orbiter_conns c) add_connections self) (\<lambda>self.
     and_then (probe frames (call_frames ops) (orbiter_vars c) add_variables self) (\<lambda>self.
     and_then (probe frames (call_frames ops) (orbiter_env_vars c) add_env_vars self) (\<lambda>self.
     and_then (probe frames (call_frames ops) (orbiter_includes c) add_includes self) (\<lambda>self.
     probe frames (call_frames ops) (imports' c) add_requirements self)))))"

text \<open>
  \<^verbatim>\<open>_add_recursively\<close>. The source sets no bound on the depth of its recursion; the only
  bound is the interpreter's (\<^verbatim>\<open>sys.getrecursionlimit()\<close>), which raises
  \<^verbatim>\<open>RecursionError\<close>. The second argument is the number of frames the interpreter still
  allows: a call of the walk made with none left raises; a call made with \<open>Suc frames\<close>
  takes one for itself and leaves \<open>frames\<close> to the probes, to the add operations and to
  the nested walks it calls. A string is passed over after \<^verbatim>\<open>isinstance(thing, str)\<close>,
  which opens no frame; every other thing is probed first.
\<close>

definition probing :: "entity_ops \<Rightarrow> nat \<Rightarrow> 's \<Rightarrow> 's outcome" where
  "probing ops frames s =
     (if frames < probe_frames ops then (Some RecursionError, s) else (None, s))"

fun add_recursively :: "entity_ops \<Rightarrow> nat \<Rightarrow> thing list \<Rightarrow> OrbiterProject \<Rightarrow> OrbiterProject outcome" where
  "add_recursively ops 0 things self = (Some RecursionError, self)"
| "add_recursively ops (Suc frames) [] self = (None, self)"
| "add_recursively ops (Suc frames) (Str s # things) self =
     add_recursively ops (Suc frames) things self"
| "add_recursively ops (Suc frames) (Prim # things) self =
     (case probing ops frames self of
        (Some e, self) \<Rightarrow> (Some e, self)
      | (None, self) \<Rightarrow> add_recursively ops (Suc frames) things self)"
| "add_recursively ops (Suc frames) (Container elems # things) self =
     (case probing ops frames self of
        (Some e, self) \<Rightarrow> (Some e, self)
      | (None, self) \<Rightarrow> add_recursively ops (Suc frames) things self)"
| "add_recursively ops (Suc frames) (Obj c is_task_group members vals # things) self =
     (case probing ops frames self of
        (Some e, self) \<Rightarrow> (Some e, self)
      | (None, self) \<Rightarrow>
     (case add_carried ops frames c self of
        (Some e, self) \<Rightarrow> (Some e, self)
      | (None, self) \<Rightarrow>
          (case (if is_task_group \<and> members \<noteq> []
                 then add_recursively ops frames members self else (None, self)) of
             (Some e, self) \<Rightarrow> (Some e, self)
           | (None, self) \<Rightarrow>
               (case add_recursively ops frames vals self of
                  (Some e, self) \<Rightarrow> (Some e, self)
                | (None, self) \<Rightarrow> add_recursively ops (Suc frames) things self))))"

text \<open>The body of the loop of \<^verbatim>\<open>add_dags\<close>: add or update the DAG, then walk.\<close>

definition add_dag :: "entity_ops \<Rightarrow> OrbiterDAG \<Rightarrow> OrbiterProject \<Rightarrow> OrbiterProject" where
  "add_dag ops dag self =
     (case map_of (dags self) (dag_id dag) of
        Some existing \<Rightarrow>
          self\<lparr>dags := AList.update (dag_id dag) (dag_add ops existing dag) (dags self)\<rparr>
      | None \<Rightarrow> self\<lparr>dags := AList.update (dag_id dag) dag (dags self)\<rparr>)"

fun add_dags_loop :: "entity_ops \<Rightarrow> nat \<Rightarrow> OrbiterDAG item list \<Rightarrow> OrbiterProject \<Rightarrow> OrbiterProject outcome" where
  "add_dags_loop ops frames [] self = (None, self)"
| "add_dags_loop ops frames (Invalid # rest) self = (Some ValidationError, self)"
| "add_dags_loop ops frames (Valid dag # rest) self =
     (case add_recursively ops frames (map snd (tasks dag)) (add_dag ops dag self) of
        (Some e, self) \<Rightarrow> (Some e, self)
      | (None, self) \<Rightarrow>
          (case add_recursively ops frames [dag_thing dag] self of
             (Some e, self) \<Rightarrow> (Some e, self)
           | (None, self) \<Rightarrow> add_dags_loop ops frames rest self))"

definition add_dags :: "entity_ops \<Rightarrow> nat \<Rightarrow> OrbiterDAG arg \<Rightarrow> OrbiterProject \<Rightarrow> OrbiterProject outcome" where
  "add_dags ops frames = validate_call (add_dags_loop ops frames)"

subsection \<open>Combining and comparing projects\<close>

text \<open>
  The right operand of \<^verbatim>\<open>+\<close>: a falsy value (\<^verbatim>\<open>None\<close>), a truthy value that is not an
  \<^verbatim>\<open>OrbiterProject\<close>, or another project (the class defines neither \<^verbatim>\<open>__bool__\<close> nor
  \<^verbatim>\<open>__len__\<close>, so a project is always truthy). The result is the left operand after the
  call, which is also the object \<^verbatim>\<open>__add__\<close> returns.
\<close>

datatype operand = Falsy | NotAProject | Project OrbiterProject

definition project_add :: "entity_ops \<Rightarrow> nat \<Rightarrow> OrbiterProject \<Rightarrow> operand \<Rightarrow> OrbiterProject outcome" where
  "project_add ops frames self other =
     (case other of
        Falsy \<Rightarrow> (None, self)
      | NotAProject \<Rightarrow> (Some TypeError, self)
      | Project other \<Rightarrow>
          and_then (add_dags ops frames (Many (map (Valid \<circ> snd) (dags other))) self) (\<lambda>self.
          and_then (add_requirements (Many (map Valid (requirements other))) self) (\<lambda>self.
          and_then (add_pools ops (Many (map (Valid \<circ> snd) (pools other))) self) (\<lambda>self.
          and_then (add_connections (Many (map (Valid \<circ> snd) (connections other))) self) (\<lambda>self.
          and_then (add_variables (Many (map (Valid \<circ> snd) (variables other))) self) (\<lambda>self.
          and_then (add_env_vars (Many (map (Valid \<circ> snd) (env_vars other))) self) (\<lambda>self.
          add_includes (Many (map (Valid \<circ> snd) (includes' other))) self)))))))"

text \<open>
  \<^verbatim>\<open>[str(self.dags[d]) == str(other.dags[d]) for d in keys]\<close>: a subscript with a
  missing key raises \<^verbatim>\<open>KeyError\<close>.
\<close>

fun dag_texts_equal :: "entity_ops \<Rightarrow> (string \<times> OrbiterDAG) list \<Rightarrow> (string \<times> OrbiterDAG) list
    \<Rightarrow> string list \<Rightarrow> error + bool list" where
  "dag_texts_equal ops mine theirs [] = Inr []"
| "dag_texts_equal ops mine theirs (d # ds) =
     (case map_of mine d of
        None \<Rightarrow> Inl (KeyError d)
      | Some x \<Rightarrow>
          (case map_of theirs d of
             None \<Rightarrow> Inl (KeyError d)
           | Some y \<Rightarrow>
               (case dag_texts_equal ops mine theirs ds of
                  Inl e \<Rightarrow> Inl e
                | Inr bs \<Rightarrow> Inr ((dag_str ops x = dag_str ops y) # bs))))"

text \<open>Equality of two dicts: the same number of keys, and each key of the first maps to an equal value in the second.\<close>

definition dict_eq :: "(string \<times> 'a) list \<Rightarrow> (string \<times> 'a) list \<Rightarrow> bool" where
  "dict_eq d e = (length d = length e \<and> list_all (\<lambda>(k, v). map_of e k = Some v) d)"

definition project_eq :: "entity_ops \<Rightarrow> OrbiterProject \<Rightarrow> OrbiterProject \<Rightarrow> error + bool" where
  "project_eq ops self other =
     (case dag_texts_equal ops (dags self) (dags other) (map fst (dags self)) of
        Inl e \<Rightarrow> Inl e
      | Inr mine \<Rightarrow>
          (case dag_texts_equal ops (dags self) (dags other) (map fst (dags other)) of
             Inl e \<Rightarrow> Inl e
           | Inr theirs \<Rightarrow>
               Inr (list_all id
                 (mine @ theirs
                  @ [set (requirements self) = set (requirements other)]
                  @ [dict_eq (pools self) (pools other)]
                  @ [dict_eq (connections self) (connections other)]
                  @ [dict_eq (variables self) (variables other)]
                  @ [dict_eq (env_vars self) (env_vars other)]))))"

subsection \<open>The file system\<close>

text \<open>
  \<^verbatim>\<open>render\<close> touches nothing but the file system, through \<^verbatim>\<open>pathlib\<close>. A path is what
  \<^verbatim>\<open>pathlib.PurePosixPath\<close> keeps of one: whether it is anchored at the root, and its parts.
  Parsing a string drops empty parts and \<^verbatim>\<open>.\<close> and keeps \<^verbatim>\<open>..\<close>; \<^verbatim>\<open>p / s\<close> is \<open>s\<close> alone when
  \<open>s\<close> starts with a slash, and \<open>p\<close> followed by the parts of \<open>s\<close> otherwise, so that
  \<^verbatim>\<open>p / ""\<close> is \<open>p\<close>; \<^verbatim>\<open>p.parent\<close> drops the last part.
\<close>

datatype path = Path bool "string list"

fun split_slash :: "string \<Rightarrow> string list" where
  "split_slash [] = [[]]"
| "split_slash (c # cs) =
     (if c = CHR ''/'' then [] # split_slash cs
      else (case split_slash cs of [] \<Rightarrow> [[c]] | w # ws \<Rightarrow> (c # w) # ws))"

definition parts :: "string \<Rightarrow> string list" where
  "parts s = filter (\<lambda>part. part \<noteq> [] \<and> part \<noteq> ''.'') (split_slash s)"

definition slash :: "path \<Rightarrow> string \<Rightarrow> path" where
  "slash p s =
     (case p of Path anchored ps \<Rightarrow>
        if s \<noteq> [] \<and> hd s = CHR ''/'' then Path True (parts s) else Path anchored (ps @ parts s))"

definition parent :: "path \<Rightarrow> path" where
  "parent p = (case p of Path anchored ps \<Rightarrow> Path anchored (butlast ps))"

text \<open>
  The file system is a tree of directories and text files, each node under the list of
  names that leads to it from the root, together with the working directory of the
  process. The root is a directory. Symbolic links, permissions, other processes and a
  full disk are not modelled.
\<close>

datatype node = Dir | File string

record file_system =
  cwd :: "string list"
  nodes :: "(string list \<times> node) list"

definition node_at :: "file_system \<Rightarrow> string list \<Rightarrow> node option" where
  "node_at fs at = (if at = [] then Some Dir else map_of (nodes fs) at)"

text \<open>
  Where the operating system finds a path: it walks the parts from the root or from the
  working directory. To step on from a place, the place has to be a directory
  (\<^verbatim>\<open>ENOENT\<close> if nothing is there, \<^verbatim>\<open>ENOTDIR\<close> if a file is); \<^verbatim>\<open>..\<close> steps to the directory
  above. The place the last part leads to need not exist.
\<close>

fun walk_to :: "file_system \<Rightarrow> string list \<Rightarrow> string list \<Rightarrow> error + string list" where
  "walk_to fs at [] = Inr at"
| "walk_to fs at (part # ps) =
     (case node_at fs at of
        None \<Rightarrow> Inl FileNotFoundError
      | Some (File text) \<Rightarrow> Inl NotADirectoryError
      | Some Dir \<Rightarrow> walk_to fs (if part = ''..'' then butlast at else at @ [part]) ps)"

definition locate :: "file_system \<Rightarrow> path \<Rightarrow> error + string list" where
  "locate fs p = (case p of Path anchored ps \<Rightarrow> walk_to fs (if anchored then [] else cwd fs) ps)"

definition is_dir :: "file_system \<Rightarrow> path \<Rightarrow> bool" where
  "is_dir fs p = (case locate fs p of Inl e \<Rightarrow> False | Inr at \<Rightarrow> node_at fs at = Some Dir)"

text \<open>\<^verbatim>\<open>os.mkdir(p)\<close>: the place must be free.\<close>

definition os_mkdir :: "path \<Rightarrow> file_system \<Rightarrow> file_system outcome" where
  "os_mkdir p fs =
     (case locate fs p of
        Inl e \<Rightarrow> (Some e, fs)
      | Inr at \<Rightarrow>
          (case node_at fs at of
             Some n \<Rightarrow> (Some FileExistsError, fs)
           | None \<Rightarrow> (None, fs\<lparr>nodes := AList.update at Dir (nodes fs)\<rparr>)))"

text \<open>
  \<^verbatim>\<open>Path.mkdir(parents=..., exist_ok=True)\<close>, as \<^verbatim>\<open>pathlib\<close> writes it: try \<^verbatim>\<open>os.mkdir\<close>; on
  \<^verbatim>\<open>FileNotFoundError\<close> re-raise without \<^verbatim>\<open>parents\<close> or when the path is its own parent, and
  otherwise make the parent in the same way and then the path itself without \<^verbatim>\<open>parents\<close>;
  on any other \<^verbatim>\<open>OSError\<close> re-raise unless the path is a directory. The parts are passed
  last part first.
\<close>

definition mkdir_exist_ok :: "path \<Rightarrow> file_system \<Rightarrow> file_system outcome" where
  "mkdir_exist_ok p fs =
     (case os_mkdir p fs of
        (None, fs') \<Rightarrow> (None, fs')
      | (Some e, fs') \<Rightarrow>
          if e \<noteq> FileNotFoundError \<and> is_dir fs p then (None, fs') else (Some e, fs'))"

fun mkdir_parents :: "bool \<Rightarrow> string list \<Rightarrow> file_system \<Rightarrow> file_system outcome" where
  "mkdir_parents anchored [] fs = mkdir_exist_ok (Path anchored []) fs"
| "mkdir_parents anchored (part # up) fs =
     (case os_mkdir (Path anchored (rev (part # up))) fs of
        (None, fs') \<Rightarrow> (None, fs')
      | (Some e, fs') \<Rightarrow>
          if e = FileNotFoundError
          then and_then (mkdir_parents anchored up fs)
                 (mkdir_exist_ok (Path anchored (rev (part # up))))
          else if is_dir fs (Path anchored (rev (part # up))) then (None, fs')
          else (Some e, fs'))"

definition mkdir :: "path \<Rightarrow> file_system \<Rightarrow> file_system outcome" where
  "mkdir p fs = (case p of Path anchored ps \<Rightarrow> mkdir_parents anchored (rev ps) fs)"

text \<open>
  \<^verbatim>\<open>Path.write_text(text)\<close> and \<^verbatim>\<open>Path.open("w")\<close>: the directory of the file has to exist,
  and the place is free or a file, whose text is replaced (\<^verbatim>\<open>EISDIR\<close> if it is a directory).
\<close>

definition write_text :: "path \<Rightarrow> string \<Rightarrow> file_system \<Rightarrow> file_system outcome" where
  "write_text p text fs =
     (case locate fs p of
        Inl e \<Rightarrow> (Some e, fs)
      | Inr at \<Rightarrow>
          (case node_at fs at of
             Some Dir \<Rightarrow> (Some IsADirectoryError, fs)
           | _ \<Rightarrow> (None, fs\<lparr>nodes := AList.update at (File text) (nodes fs)\<rparr>)))"

subsection \<open>Rendering\<close>

text \<open>
  Which file-system operations \<^verbatim>\<open>render\<close> asks for, and in which order, depends on the
  project and on the output directory alone: the file system decides only whether an
  operation raises, which ends \<^verbatim>\<open>render\<close>. The model therefore lists the operations in the
  order of the source and then performs them one after the other up to the first that
  raises. \<open>Mkdir p\<close> is \<^verbatim>\<open>p.mkdir(parents=True, exist_ok=True)\<close>, \<open>WriteText p text\<close> is
  \<^verbatim>\<open>p.write_text(text)\<close>, and \<open>SafeDump\<close> is \<^verbatim>\<open>yaml.safe_dump\<close> of the settings document
  with the three lists into \<^verbatim>\<open>p.open("w")\<close>. The result is the exception raised, if any,
  the file system left behind, and the operations performed.
\<close>

datatype effect =
    Mkdir path
  | WriteText path string
  | SafeDump path "string list" "string list" "string list"

definition perform :: "entity_ops \<Rightarrow> effect \<Rightarrow> file_system \<Rightarrow> file_system outcome" where
  "perform ops e fs =
     (case e of
        Mkdir p \<Rightarrow> mkdir p fs
      | WriteText p text \<Rightarrow> write_text p text fs
      | SafeDump p ps vs cs \<Rightarrow> write_text p (safe_dump ops ps vs cs) fs)"

fun perform_all :: "entity_ops \<Rightarrow> effect list \<Rightarrow> file_system \<Rightarrow> (file_system \<times> effect list) outcome" where
  "perform_all ops [] fs = (None, fs, [])"
| "perform_all ops (e # es) fs =
     (case perform ops e fs of
        (Some err, fs') \<Rightarrow> (Some err, fs', [])
      | (None, fs') \<Rightarrow>
          (case perform_all ops es fs' of (r, fs'', performed) \<Rightarrow> (r, fs'', e # performed)))"

definition newline :: string where
  "newline = [CHR 0x0A]"

fun join :: "string \<Rightarrow> string list \<Rightarrow> string" where
  "join sep [] = []"
| "join sep [x] = x"
| "join sep (x # y # ys) = x @ sep @ join sep (y # ys)"

text \<open>Truthiness of an optional string: \<^verbatim>\<open>None\<close> and \<^verbatim>\<open>""\<close> are falsy.\<close>

definition truthy :: "string option \<Rightarrow> bool" where
  "truthy s = (s \<noteq> None \<and> s \<noteq> Some [])"

definition text_of :: "string option \<Rightarrow> string" where
  "text_of s = (case s of None \<Rightarrow> [] | Some t \<Rightarrow> t)"

text \<open>\<^verbatim>\<open>"\n".join(sorted(set(r.package for r in self.requirements if r.package)))\<close>\<close>

definition manifest :: "(OrbiterRequirement \<Rightarrow> string option) \<Rightarrow> OrbiterRequirement list \<Rightarrow> string" where
  "manifest field rs = join newline (sort (remdups (map (text_of \<circ> field) (filter (truthy \<circ> field) rs))))"

definition render_dags :: "entity_ops \<Rightarrow> OrbiterProject \<Rightarrow> path \<Rightarrow> effect list" where
  "render_dags ops self output_dir =
     Mkdir (slash output_dir ''dags'')
     # concat (map (\<lambda>(dag_id, dag).
         [Mkdir (parent (slash (slash output_dir ''dags'') (file_path dag))),
          WriteText (slash (slash output_dir ''dags'') (file_path dag)) (dag_str ops dag)])
       (dags self))"

definition render_requirements :: "OrbiterProject \<Rightarrow> path \<Rightarrow> effect list" where
  "render_requirements self output_dir =
     (if filter (truthy \<circ> package) (requirements self) \<noteq> []
      then [WriteText (slash output_dir ''requirements.txt'') (manifest package (requirements self))]
      else [])"

definition render_packages :: "OrbiterProject \<Rightarrow> path \<Rightarrow> effect list" where
  "render_packages self output_dir =
     (if filter (truthy \<circ> sys_package) (requirements self) \<noteq> []
      then [WriteText (slash output_dir ''packages.txt'') (manifest sys_package (requirements self))]
      else [])"

definition render_settings :: "entity_ops \<Rightarrow> OrbiterProject \<Rightarrow> path \<Rightarrow> effect list" where
  "render_settings ops self output_dir =
     (if pools self \<noteq> [] \<or> variables self \<noteq> [] \<or> connections self \<noteq> []
      then [SafeDump (slash output_dir ''airflow_settings.yaml'')
              (map (pool_render ops \<circ> snd) (pools self))
              (map (variable_render ops \<circ> snd) (variables self))
              (map (connection_render ops \<circ> snd) (connections self))]
      else [])"

definition render_includes :: "entity_ops \<Rightarrow> OrbiterProject \<Rightarrow> path \<Rightarrow> effect list" where
  "render_includes ops self output_dir =
     map (\<lambda>(k, inc). WriteText (slash output_dir (filepath inc)) (include_render ops inc))
       (includes' self)"

definition render_env :: "entity_ops \<Rightarrow> OrbiterProject \<Rightarrow> path \<Rightarrow> effect list" where
  "render_env ops self output_dir =
     (if env_vars self \<noteq> []
      then [WriteText (slash output_dir ''.env'')
              (join newline (map (env_var_render ops \<circ> snd) (env_vars self)))]
      else [])"

definition render :: "entity_ops \<Rightarrow> OrbiterProject \<Rightarrow> path \<Rightarrow> file_system
    \<Rightarrow> (file_system \<times> effect list) outcome" where
  "render ops self output_dir fs =
     (if length (dags self) = 0 then (Some (RuntimeError ''No DAGs to render!''), fs, [])
      else perform_all ops
        (render_dags ops self output_dir
         @ render_requirements self output_dir
         @ render_packages self output_dir
         @ render_settings ops self output_dir
         @ render_includes ops self output_dir
         @ render_env ops self output_dir) fs)"


section \<open>Vocabulary of the properties\<close>




fun accepted_prefix :: "'a item list \<Rightarrow> 'a list" where
  "accepted_prefix [] = []"
| "accepted_prefix (Valid x # xs) = x # accepted_prefix xs"
| "accepted_prefix (Invalid # xs) = []"



definition no_attrs :: carried where
  "no_attrs =
     \<lparr>orbiter_pool = None, orbiter_conns = None, orbiter_vars = None,
      orbiter_env_vars = None, orbiter_includes = None, imports' = None\<rparr>"











section \<open>Concrete inputs\<close>

text \<open>
  The values of the doctests of \<^verbatim>\<open>project.py\<close>, and one choice of the operations that
  are parameters of the model, for running it: the new pool and the new DAG replace the
  existing one (which reproduces the doctest of \<^verbatim>\<open>add_pools\<close>), a DAG prints as its id,
  an entity renders as its key, the settings document is the lines of its entries, a
  probe opens one frame and an add operation three (the wrapper function of pydantic, its
  validator's \<^verbatim>\<open>__call__\<close>, the method).
\<close>

definition replacing_ops :: entity_ops where
  "replacing_ops =
     \<lparr>pool_add = (\<lambda>existing pool. pool), dag_add = (\<lambda>existing dag. dag), dag_str = dag_id,
      pool_render = name, variable_render = var_key, connection_render = conn_id,
      include_render = contents, env_var_render = (\<lambda>e. env_key e @ ''='' @ env_value e),
      safe_dump = (\<lambda>ps vs cs. join newline (ps @ vs @ cs)), probe_frames = 1,
      call_frames = 3\<rparr>"

definition pool_foo :: "int \<Rightarrow> OrbiterPool" where
  "pool_foo n = \<lparr>name = ''foo'', description = [], slots = n\<rparr>"

definition conn_foo :: OrbiterConnection where
  "conn_foo = \<lparr>conn_id = ''foo'', conn_type = ''generic''\<rparr>"

definition conn_bar :: OrbiterConnection where
  "conn_bar = \<lparr>conn_id = ''bar'', conn_type = ''generic''\<rparr>"


definition var_foo :: OrbiterVariable where
  "var_foo = \<lparr>var_key = ''foo'', var_value = ''bar''\<rparr>"

definition env_foo :: OrbiterEnvVar where
  "env_foo = \<lparr>env_key = ''foo'', env_value = ''bar''\<rparr>"

definition include_foo :: OrbiterInclude where
  "include_foo = \<lparr>filepath = ''foo.txt'', contents = ''Hello, World!''\<rparr>"

definition req_bash :: OrbiterRequirement where
  "req_bash =
     \<lparr>names = [''BashOperator''], package = Some ''apache-airflow'',
      module = Some ''airflow.operators.bash'', sys_package = None\<rparr>"

definition req_dag :: OrbiterRequirement where
  "req_dag =
     \<lparr>names = [''DAG''], package = Some ''apache-airflow'', module = Some ''airflow'',
      sys_package = None\<rparr>"

definition req_smtp :: OrbiterRequirement where
  "req_smtp =
     \<lparr>names = [''send_smtp_notification''], package = Some ''apache-airflow-providers-smtp'',
      module = Some ''airflow.providers.smtp.notifications.smtp'', sys_package = None\<rparr>"


definition bash_task :: "thing \<Rightarrow> thing" where
  "bash_task callback =
     Obj \<lparr>orbiter_pool = Some (Single (pool_foo 1)),
          orbiter_conns = Some (Many [Valid conn_foo]),
          orbiter_vars = Some (Many [Valid var_foo]),
          orbiter_env_vars = Some (Many [Valid env_foo]),
          orbiter_includes = None,
          imports' = Some (Many [Valid req_bash])\<rparr>
       False [] [Str ''foo'', Str ''echo Hello'', Obj no_attrs False [] [Str ''foo'', Str [], Prim],
                 Container [], callback]"

definition doctest_dag :: "thing \<Rightarrow> OrbiterDAG" where
  "doctest_dag callback =
     \<lparr>dag_id = ''foo'', file_path = [],
      tasks = [(''foo'', Obj no_attrs True [bash_task callback]
                          [Str ''foo'', Container [bash_task callback]])],
      attrs = no_attrs\<lparr>orbiter_env_vars := Some (Many [Valid env_foo]),
                       orbiter_includes := Some (Many [Valid include_foo]),
                       imports' := Some (Many [Valid req_dag])\<rparr>,
      dict_values = [Str ''foo'', Str [], Prim, Container []]\<rparr>"

text \<open>
  The doctest of \<^verbatim>\<open>add_pools\<close>: pool \<^verbatim>\<open>foo\<close> with 1 slot is added, then pool \<^verbatim>\<open>foo\<close> with
  2 slots; the pools printed are
  \<^verbatim>\<open>{'foo': OrbiterPool(name='foo', description='', slots=2)}\<close>.
\<close>

definition add_pools_doctest :: "(string \<times> OrbiterPool) list" where
  "add_pools_doctest = [(''foo'', pool_foo 2)]"

text \<open>
  Modelled from the spec: \<^verbatim>\<open>OrbiterPool.__add__\<close>, which is not in \<^verbatim>\<open>project.py\<close>, as
  the specification words it: "an additive merge (e.g., slot counts combine)".
\<close>

definition additive_ops :: entity_ops where
  "additive_ops =
     replacing_ops\<lparr>pool_add := (\<lambda>existing pool. existing\<lparr>slots := slots existing + slots pool\<rparr>)\<rparr>"


text \<open>
  A project to render: the DAG of the doctest under the file name \<^verbatim>\<open>foo.py\<close>, with three
  requirements, two of them of one package. And a file system holding nothing but its
  root, which is the working directory.
\<close>

definition foo_project :: "OrbiterRequirement list \<Rightarrow> OrbiterProject" where
  "foo_project rs =
     OrbiterProject_init\<lparr>dags := [(''foo'', (doctest_dag Prim)\<lparr>file_path := ''foo.py''\<rparr>)],
       requirements := rs\<rparr>"

definition empty_disk :: file_system where
  "empty_disk = \<lparr>cwd = [], nodes = []\<rparr>"


section \<open>Auxiliary facts\<close>

lemma for_each_valid:
  "for_each body (map Valid xs) s = (None, fold body xs s)"
  by (induction xs arbitrary: s) simp_all

lemma validate_call_single: "validate_call (for_each body) (Single x) s = (None, body x s)"
  by (simp add: validate_call_def)

lemma validate_call_valid:
  "validate_call (for_each body) (Many (map Valid xs)) s = (None, fold body xs s)"
  by (simp add: validate_call_def for_each_valid)

lemma for_each_stops:
  "for_each body (map Valid xs @ Invalid # rest) s = (Some ValidationError, fold body xs s)"
  by (induction xs arbitrary: s) simp_all

lemma fold_update_lookup:
  "map_of (fold (\<lambda>x al. AList.update (key x) x al) xs al) k
     = (case find (\<lambda>x. key x = k) (rev xs) of Some x \<Rightarrow> Some x | None \<Rightarrow> map_of al k)"
  by (induction xs arbitrary: al rule: rev_induct) (simp_all add: update_conv')

lemma fold_connections:
  "fold (\<lambda>c s. s\<lparr>connections := AList.update (conn_id c) c (connections s)\<rparr>) cs self
     = self\<lparr>connections := fold (\<lambda>c al. AList.update (conn_id c) c al) cs (connections self)\<rparr>"
  by (induction cs arbitrary: self) simp_all

lemma fold_variables:
  "fold (\<lambda>c s. s\<lparr>variables := AList.update (var_key c) c (variables s)\<rparr>) cs self
     = self\<lparr>variables := fold (\<lambda>c al. AList.update (var_key c) c al) cs (variables self)\<rparr>"
  by (induction cs arbitrary: self) simp_all

lemma fold_env_vars:
  "fold (\<lambda>c s. s\<lparr>env_vars := AList.update (env_key c) c (env_vars s)\<rparr>) cs self
     = self\<lparr>env_vars := fold (\<lambda>c al. AList.update (env_key c) c al) cs (env_vars self)\<rparr>"
  by (induction cs arbitrary: self) simp_all

lemma fold_includes:
  "fold (\<lambda>c s. s\<lparr>includes' := AList.update (filepath c) c (includes' s)\<rparr>) cs self
     = self\<lparr>includes' := fold (\<lambda>c al. AList.update (filepath c) c al) cs (includes' self)\<rparr>"
  by (induction cs arbitrary: self) simp_all

lemma add_connections_valid:
  "add_connections (Many (map Valid cs)) self
     = (None, self\<lparr>connections := fold (\<lambda>c al. AList.update (conn_id c) c al) cs (connections self)\<rparr>)"
  by (simp add: add_connections_def validate_call_valid fold_connections)

lemma add_variables_valid:
  "add_variables (Many (map Valid cs)) self
     = (None, self\<lparr>variables := fold (\<lambda>c al. AList.update (var_key c) c al) cs (variables self)\<rparr>)"
  by (simp add: add_variables_def validate_call_valid fold_variables)

lemma add_env_vars_valid:
  "add_env_vars (Many (map Valid cs)) self
     = (None, self\<lparr>env_vars := fold (\<lambda>c al. AList.update (env_key c) c al) cs (env_vars self)\<rparr>)"
  by (simp add: add_env_vars_def validate_call_valid fold_env_vars)

lemma add_includes_valid:
  "add_includes (Many (map Valid cs)) self
     = (None, self\<lparr>includes' := fold (\<lambda>c al. AList.update (filepath c) c al) cs (includes' self)\<rparr>)"
  by (simp add: add_includes_def validate_call_valid fold_includes)

section \<open>Rendering an empty project\<close>

text \<open>
  Claim C3. \<^verbatim>\<open>render\<close> on a project with no DAGs raises the error the source reserves for
  that case, \<^verbatim>\<open>RuntimeError("No DAGs to render!")\<close> (the specification's
  EmptyProjectError), and has touched nothing when it does: the file system is as it was
  and the list of operations performed is empty.
\<close>

theorem render_empty_project:
  "dags self = [] \<Longrightarrow>
     render ops self output_dir fs = (Some (RuntimeError ''No DAGs to render!''), fs, [])"
  by (simp add: render_def)

theorem render_empty_project_witness:
  "dags OrbiterProject_init = []
   \<and> render replacing_ops OrbiterProject_init (Path False [''out'']) empty_disk
       = (Some (RuntimeError ''No DAGs to render!''), empty_disk, [])"
  using render_empty_project [of OrbiterProject_init replacing_ops "Path False [''out'']" empty_disk]
  by (simp add: OrbiterProject_init_def)

section \<open>Overwriting by key\<close>

text \<open>
  Claim C5. \<^verbatim>\<open>add_connections\<close>, \<^verbatim>\<open>add_variables\<close>, \<^verbatim>\<open>add_env_vars\<close> and \<^verbatim>\<open>add_includes\<close>
  are last-write-wins by key. A single entity is handled as the one-element sequence.
  After adding a sequence of entities the call has raised nothing; under every key \<open>k\<close>
  the mapping holds the last entity of the sequence whose key is \<open>k\<close>, whole and as it
  was passed, and where the sequence has no such entity the entry is what it was before
  (present or absent); and no other collection of the project has changed.
\<close>

theorem add_overwrites_by_key:
  "(add_connections (Single c) self = add_connections (Many [Valid c]) self
    \<and> fst (add_connections (Many (map Valid cs)) self) = None
    \<and> map_of (connections (snd (add_connections (Many (map Valid cs)) self))) k
        = (case find (\<lambda>x. conn_id x = k) (rev cs) of
             Some x \<Rightarrow> Some x | None \<Rightarrow> map_of (connections self) k)
    \<and> (snd (add_connections (Many (map Valid cs)) self))\<lparr>connections := connections self\<rparr> = self)
   \<and> (add_variables (Single v) self = add_variables (Many [Valid v]) self
    \<and> fst (add_variables (Many (map Valid vs)) self) = None
    \<and> map_of (variables (snd (add_variables (Many (map Valid vs)) self))) k
        = (case find (\<lambda>x. var_key x = k) (rev vs) of
             Some x \<Rightarrow> Some x | None \<Rightarrow> map_of (variables self) k)
    \<and> (snd (add_variables (Many (map Valid vs)) self))\<lparr>variables := variables self\<rparr> = self)
   \<and> (add_env_vars (Single e) self = add_env_vars (Many [Valid e]) self
    \<and> fst (add_env_vars (Many (map Valid es)) self) = None
    \<and> map_of (env_vars (snd (add_env_vars (Many (map Valid es)) self))) k
        = (case find (\<lambda>x. env_key x = k) (rev es) of
             Some x \<Rightarrow> Some x | None \<Rightarrow> map_of (env_vars self) k)
    \<and> (snd (add_env_vars (Many (map Valid es)) self))\<lparr>env_vars := env_vars self\<rparr> = self)
   \<and> (add_includes (Single i) self = add_includes (Many [Valid i]) self
    \<and> fst (add_includes (Many (map Valid is)) self) = None
    \<and> map_of (includes' (snd (add_includes (Many (map Valid is)) self))) k
        = (case find (\<lambda>x. filepath x = k) (rev is) of
             Some x \<Rightarrow> Some x | None \<Rightarrow> map_of (includes' self) k)
    \<and> (snd (add_includes (Many (map Valid is)) self))\<lparr>includes' := includes' self\<rparr> = self)"
proof -
  have conns: "add_connections (Single c) self = add_connections (Many [Valid c]) self"
    by (simp add: add_connections_def validate_call_def)
  have vars: "add_variables (Single v) self = add_variables (Many [Valid v]) self"
    by (simp add: add_variables_def validate_call_def)
  have envs: "add_env_vars (Single e) self = add_env_vars (Many [Valid e]) self"
    by (simp add: add_env_vars_def validate_call_def)
  have incs: "add_includes (Single i) self = add_includes (Many [Valid i]) self"
    by (simp add: add_includes_def validate_call_def)
  show ?thesis
    by (simp add: conns vars envs incs add_connections_valid add_variables_valid
        add_env_vars_valid add_includes_valid fold_update_lookup)
qed

theorem add_overwrites_by_key_witness:
  "map_of (connections (snd (add_connections
      (Many (map Valid [conn_foo, conn_foo\<lparr>conn_type := ''smtp''\<rparr>, conn_bar]))
      OrbiterProject_init))) ''foo''
     = Some (conn_foo\<lparr>conn_type := ''smtp''\<rparr>)"
  using add_overwrites_by_key
    [of _ OrbiterProject_init "[conn_foo, conn_foo\<lparr>conn_type := ''smtp''\<rparr>, conn_bar]" "''foo''"]
  by (simp add: conn_foo_def conn_bar_def)

lemma add_pool_frame: "(add_pool ops pool self)\<lparr>pools := pools self\<rparr> = self"
  by (simp add: add_pool_def split: option.splits)

lemma add_pool_lookup:
  "map_of (pools (add_pool ops pool self)) k
     = (if k = name pool
        then Some (case map_of (pools self) (name pool) of
                     Some existing \<Rightarrow> pool_add ops existing pool | None \<Rightarrow> pool)
        else map_of (pools self) k)"
  by (simp add: add_pool_def update_conv' split: option.splits)

section \<open>Adding pools\<close>

text \<open>
  Claim C2, as stated, has the merge of two pools of one name add their slot counts (2
  and 3 give 5). The doctest of \<^verbatim>\<open>add_pools\<close> says otherwise: \<^verbatim>\<open>foo\<close> with 1 slot, then
  \<^verbatim>\<open>foo\<close> with 2 slots, leaves \<^verbatim>\<open>foo\<close> with 2 slots. With the additive merge of the
  specification the same two calls leave 3 slots, which is not what the doctest prints.
\<close>

theorem additive_merge_counterexample:
  "pools (snd (add_pools additive_ops (Many [Valid (pool_foo 2)])
      (snd (add_pools additive_ops (Many [Valid (pool_foo 1)]) OrbiterProject_init))))
     = [(''foo'', pool_foo 3)]
   \<and> [(''foo'', pool_foo 3)] \<noteq> add_pools_doctest"
  by (simp add: add_pools_def validate_call_def add_pool_def OrbiterProject_init_def
      add_pools_doctest_def pool_foo_def additive_ops_def replacing_ops_def)

text \<open>
  Claim C2, amended. \<^verbatim>\<open>add_pools\<close> raises nothing on pools; a single pool is the loop body
  applied once, a sequence is the body folded over it. Under the name of the added pool
  the mapping then holds \<^verbatim>\<open>existing + pool\<close>, the pool class's own merge of the pool stored
  there before with the new one, or the new pool itself when the name was free; every
  other name keeps its entry and no other collection changes. Whatever that merge is, it
  is not the sum of the slots: the doctest of \<^verbatim>\<open>add_pools\<close> holds exactly when merging
  \<^verbatim>\<open>foo\<close> with 1 slot and \<^verbatim>\<open>foo\<close> with 2 slots gives \<^verbatim>\<open>foo\<close> with 2 slots.
\<close>

theorem add_pools_merge_or_insert:
  "add_pools ops (Single pool) self = (None, add_pool ops pool self)
   \<and> add_pools ops (Many (map Valid ps)) self = (None, fold (add_pool ops) ps self)
   \<and> map_of (pools (add_pool ops pool self)) k
        = (if k = name pool
           then Some (case map_of (pools self) (name pool) of
                        Some existing \<Rightarrow> pool_add ops existing pool | None \<Rightarrow> pool)
           else map_of (pools self) k)
   \<and> (add_pool ops pool self)\<lparr>pools := pools self\<rparr> = self
   \<and> ((pools (snd (add_pools ops (Many [Valid (pool_foo 2)])
          (snd (add_pools ops (Many [Valid (pool_foo 1)]) OrbiterProject_init)))) = add_pools_doctest)
        = (pool_add ops (pool_foo 1) (pool_foo 2) = pool_foo 2))"
  by (simp add: add_pools_def validate_call_single validate_call_valid add_pool_lookup add_pool_frame)
     (simp add: validate_call_def add_pool_def OrbiterProject_init_def add_pools_doctest_def pool_foo_def)

theorem add_pools_merge_or_insert_witness:
  "pools (snd (add_pools replacing_ops (Many [Valid (pool_foo 2)])
      (snd (add_pools replacing_ops (Many [Valid (pool_foo 1)]) OrbiterProject_init))))
     = add_pools_doctest"
  using add_pools_merge_or_insert [of replacing_ops]
  by (simp add: replacing_ops_def)

lemma validate_call_rejects: "validate_call loop NotIterable s = (Some ValidationError, s)"
  by (simp add: validate_call_def)

lemma for_each_accepted_prefix:
  "for_each body xs s
     = (if Invalid \<in> set xs then Some ValidationError else None, fold body (accepted_prefix xs) s)"
proof (induction xs arbitrary: s)
  case Nil
  then show ?case by simp
next
  case (Cons x xs)
  then show ?case by (cases x) simp_all
qed

lemma validate_call_accepted_prefix:
  "validate_call (for_each body) (Many xs) s
     = (if Invalid \<in> set xs then Some ValidationError else None,
        snd (validate_call (for_each body) (Many (map Valid (accepted_prefix xs))) s))"
  by (simp add: validate_call_def for_each_valid) (simp add: for_each_accepted_prefix)

lemma add_dags_loop_accepted_prefix:
  "add_dags_loop ops frames xs self
     = (case add_dags_loop ops frames (map Valid (accepted_prefix xs)) self of
          (Some e, s) \<Rightarrow> (Some e, s)
        | (None, s) \<Rightarrow> (if Invalid \<in> set xs then Some ValidationError else None, s))"
proof (induction xs arbitrary: self)
  case Nil
  then show ?case by simp
next
  case (Cons x xs)
  show ?case
  proof (cases x)
    case Invalid
    then show ?thesis by simp
  next
    case (Valid d)
    show ?thesis
      unfolding Valid using Cons.IH
      by (simp split: prod.splits option.splits)
  qed
qed

section \<open>Arguments of the wrong type\<close>

text \<open>
  Claim C6, as stated, has every add operation fail on a wrong-typed value anywhere in a
  sequence before anything is changed. An \<^verbatim>\<open>Iterable[C]\<close> argument is validated item by
  item as the loop runs: when a connection is followed by a value that validation rejects
  (a string, say), the connection has been stored by the time \<^verbatim>\<open>ValidationError\<close> is raised,
  and the project is no longer what it was.
\<close>

theorem partial_application_counterexample:
  "add_connections (Many [Valid conn_foo, Invalid]) OrbiterProject_init
     = (Some ValidationError, OrbiterProject_init\<lparr>connections := [(''foo'', conn_foo)]\<rparr>)
   \<and> OrbiterProject_init\<lparr>connections := [(''foo'', conn_foo)]\<rparr> \<noteq> OrbiterProject_init"
  by (simp add: add_connections_def validate_call_def OrbiterProject_init_def conn_foo_def)

text \<open>
  Claim C6, amended. What counts is what pydantic's validation rejects, not what is an
  instance: a value validation can turn into an entity is an accepted item like any
  other. For each of the seven add operations, a value that validation accepts neither
  as an entity nor as an iterable fails with \<^verbatim>\<open>ValidationError\<close> and leaves the project as
  it was. For a sequence of items, whatever they are: the call raises \<^verbatim>\<open>ValidationError\<close>
  if and only if validation rejects one of the items, and in either case it leaves the
  project exactly as adding the items before the first rejected one leaves it. So the
  project is as it was only if nothing accepted comes before the rejected item, and
  nothing after the rejected item is ever applied. For \<^verbatim>\<open>add_dags\<close> the same holds unless
  the walk of one of the DAGs before the rejected item raised first, which ends the call
  there.
\<close>

theorem validation_stops_the_loop:
  "(add_connections NotIterable self = (Some ValidationError, self)
    \<and> add_dags ops frames NotIterable self = (Some ValidationError, self)
    \<and> add_env_vars NotIterable self = (Some ValidationError, self)
    \<and> add_includes NotIterable self = (Some ValidationError, self)
    \<and> add_pools ops NotIterable self = (Some ValidationError, self)
    \<and> add_requirements NotIterable self = (Some ValidationError, self)
    \<and> add_variables NotIterable self = (Some ValidationError, self))
   \<and> (add_connections (Many cs) self
          = (if Invalid \<in> set cs then Some ValidationError else None,
             snd (add_connections (Many (map Valid (accepted_prefix cs))) self))
    \<and> add_dags ops frames (Many ds) self
          = (case add_dags ops frames (Many (map Valid (accepted_prefix ds))) self of
               (Some e, s) \<Rightarrow> (Some e, s)
             | (None, s) \<Rightarrow> (if Invalid \<in> set ds then Some ValidationError else None, s))
    \<and> add_env_vars (Many es) self
          = (if Invalid \<in> set es then Some ValidationError else None,
             snd (add_env_vars (Many (map Valid (accepted_prefix es))) self))
    \<and> add_includes (Many is) self
          = (if Invalid \<in> set is then Some ValidationError else None,
             snd (add_includes (Many (map Valid (accepted_prefix is))) self))
    \<and> add_pools ops (Many ps) self
          = (if Invalid \<in> set ps then Some ValidationError else None,
             snd (add_pools ops (Many (map Valid (accepted_prefix ps))) self))
    \<and> add_requirements (Many rs) self
          = (if Invalid \<in> set rs then Some ValidationError else None,
             snd (add_requirements (Many (map Valid (accepted_prefix rs))) self))
    \<and> add_variables (Many vs) self
          = (if Invalid \<in> set vs then Some ValidationError else None,
             snd (add_variables (Many (map Valid (accepted_prefix vs))) self)))"
proof -
  have dags: "add_dags ops frames (Many ds) self
          = (case add_dags ops frames (Many (map Valid (accepted_prefix ds))) self of
               (Some e, s) \<Rightarrow> (Some e, s)
             | (None, s) \<Rightarrow> (if Invalid \<in> set ds then Some ValidationError else None, s))"
    unfolding add_dags_def validate_call_def arg.case
    by (rule add_dags_loop_accepted_prefix)
  have none: "add_dags ops frames NotIterable self = (Some ValidationError, self)"
    by (simp add: add_dags_def validate_call_def)
  have rest: "add_connections (Many cs) self
          = (if Invalid \<in> set cs then Some ValidationError else None,
             snd (add_connections (Many (map Valid (accepted_prefix cs))) self))"
    "add_env_vars (Many es) self
          = (if Invalid \<in> set es then Some ValidationError else None,
             snd (add_env_vars (Many (map Valid (accepted_prefix es))) self))"
    "add_includes (Many is) self
          = (if Invalid \<in> set is then Some ValidationError else None,
             snd (add_includes (Many (map Valid (accepted_prefix is))) self))"
    "add_pools ops (Many ps) self
          = (if Invalid \<in> set ps then Some ValidationError else None,
             snd (add_pools ops (Many (map Valid (accepted_prefix ps))) self))"
    "add_requirements (Many rs) self
          = (if Invalid \<in> set rs then Some ValidationError else None,
             snd (add_requirements (Many (map Valid (accepted_prefix rs))) self))"
    "add_variables (Many vs) self
          = (if Invalid \<in> set vs then Some ValidationError else None,
             snd (add_variables (Many (map Valid (accepted_prefix vs))) self))"
    unfolding add_connections_def add_env_vars_def add_includes_def add_pools_def
      add_requirements_def add_variables_def
    by (rule validate_call_accepted_prefix)+
  have rejects: "add_connections NotIterable self = (Some ValidationError, self)"
    "add_env_vars NotIterable self = (Some ValidationError, self)"
    "add_includes NotIterable self = (Some ValidationError, self)"
    "add_pools ops NotIterable self = (Some ValidationError, self)"
    "add_requirements NotIterable self = (Some ValidationError, self)"
    "add_variables NotIterable self = (Some ValidationError, self)"
    unfolding add_connections_def add_env_vars_def add_includes_def add_pools_def
      add_requirements_def add_variables_def
    by (rule validate_call_rejects)+
  from dags none rest rejects show ?thesis by blast
qed

theorem validation_stops_the_loop_witness:
  "add_connections (Many [Valid conn_foo, Invalid, Valid conn_bar]) OrbiterProject_init
     = (Some ValidationError, OrbiterProject_init\<lparr>connections := [(''foo'', conn_foo)]\<rparr>)"
proof -
  have "add_connections (Many [Valid conn_foo, Invalid, Valid conn_bar]) OrbiterProject_init
          = (if Invalid \<in> set [Valid conn_foo, Invalid, Valid conn_bar]
             then Some ValidationError else None,
             snd (add_connections (Many (map Valid
               (accepted_prefix [Valid conn_foo, Invalid, Valid conn_bar]))) OrbiterProject_init))"
    by (rule validation_stops_the_loop [THEN conjunct2, THEN conjunct1])
  then show ?thesis
    by (simp add: add_connections_def validate_call_def OrbiterProject_init_def conn_foo_def)
qed

lemma validate_call_values:
  "validate_call (for_each body) (Many (map (Valid \<circ> f) xs)) s = (None, fold body (map f xs) s)"
  using validate_call_valid [of body "map f xs" s] by simp

lemma filter_nonempty: "(filter P xs \<noteq> []) = (\<exists>x\<in>set xs. P x)"
  by (simp add: filter_empty_conv)

lemma manifest_entries:
  "set (map (text_of \<circ> field) (filter (truthy \<circ> field) rs))
     = {s. s \<noteq> [] \<and> (\<exists>r\<in>set rs. field r = Some s)}"
proof -
  have "(text_of \<circ> field) ` {r \<in> set rs. truthy (field r)}
          = {s. s \<noteq> [] \<and> (\<exists>r\<in>set rs. field r = Some s)}"
  proof (intro set_eqI iffI)
    fix s assume "s \<in> (text_of \<circ> field) ` {r \<in> set rs. truthy (field r)}"
    then obtain r where "r \<in> set rs" "truthy (field r)" "s = text_of (field r)" by auto
    then show "s \<in> {s. s \<noteq> [] \<and> (\<exists>r\<in>set rs. field r = Some s)}"
      by (cases "field r") (auto simp: truthy_def text_of_def)
  next
    fix s assume "s \<in> {s. s \<noteq> [] \<and> (\<exists>r\<in>set rs. field r = Some s)}"
    then obtain r where "r \<in> set rs" "field r = Some s" "s \<noteq> []" by auto
    then have "truthy (field r)" "text_of (field r) = s" by (simp_all add: truthy_def text_of_def)
    with \<open>r \<in> set rs\<close> show "s \<in> (text_of \<circ> field) ` {r \<in> set rs. truthy (field r)}"
      by force
  qed
  then show ?thesis by simp
qed

lemma manifest_sorted_set:
  "manifest field rs = join newline (sorted_list_of_set {s. s \<noteq> [] \<and> (\<exists>r\<in>set rs. field r = Some s)})"
  unfolding manifest_def sorted_list_of_set_sort_remdups [symmetric] manifest_entries ..

lemma manifest_cong: "set rs = set rs' \<Longrightarrow> manifest field rs = manifest field rs'"
  by (simp add: manifest_sorted_set)

section \<open>Combining two projects\<close>

text \<open>
  Claim C10. \<^verbatim>\<open>self + other\<close> returns \<^verbatim>\<open>self\<close>, so the state the model returns is both the
  left operand after the call and the value of the expression. With a falsy right operand
  the left operand is returned as it was. With a truthy right operand that is not a project
  \<^verbatim>\<open>TypeError\<close> is raised and the left operand is as it was. With a project on the right,
  its DAGs are passed to \<^verbatim>\<open>add_dags\<close> of the left operand; if that raises, the exception
  leaves \<^verbatim>\<open>+\<close> with the left operand as \<^verbatim>\<open>add_dags\<close> left it; otherwise the requirements,
  pools, connections, variables, env vars and includes of the right operand are passed,
  in this order, to the add operation of their kind on the left operand, none of which
  raises, and the left operand so changed is the result.
\<close>

theorem project_add_folds_right_into_left:
  "project_add ops frames self Falsy = (None, self)
   \<and> project_add ops frames self NotAProject = (Some TypeError, self)
   \<and> project_add ops frames self (Project other)
        = (case add_dags ops frames (Many (map (Valid \<circ> snd) (dags other))) self of
             (Some e, s) \<Rightarrow> (Some e, s)
           | (None, s) \<Rightarrow>
               (None,
                snd (add_includes (Many (map (Valid \<circ> snd) (includes' other)))
                (snd (add_env_vars (Many (map (Valid \<circ> snd) (env_vars other)))
                (snd (add_variables (Many (map (Valid \<circ> snd) (variables other)))
                (snd (add_connections (Many (map (Valid \<circ> snd) (connections other)))
                (snd (add_pools ops (Many (map (Valid \<circ> snd) (pools other)))
                (snd (add_requirements (Many (map Valid (requirements other))) s)))))))))))))"
  by (simp add: project_add_def and_then_def add_includes_def add_env_vars_def add_variables_def
      add_connections_def add_pools_def add_requirements_def validate_call_values validate_call_valid
      split: prod.splits option.splits)

theorem project_add_folds_right_into_left_witness:
  "project_add replacing_ops 10 (OrbiterProject_init\<lparr>connections := [(''foo'', conn_foo)]\<rparr>)
     (Project (OrbiterProject_init\<lparr>connections := [(''bar'', conn_bar)], pools := [(''foo'', pool_foo 1)]\<rparr>))
     = (None, OrbiterProject_init\<lparr>connections := [(''foo'', conn_foo), (''bar'', conn_bar)],
                                   pools := [(''foo'', pool_foo 1)]\<rparr>)"
  using project_add_folds_right_into_left [of replacing_ops 10
      "OrbiterProject_init\<lparr>connections := [(''foo'', conn_foo)]\<rparr>"
      "OrbiterProject_init\<lparr>connections := [(''bar'', conn_bar)], pools := [(''foo'', pool_foo 1)]\<rparr>"]
  by (simp add: OrbiterProject_init_def add_dags_def validate_call_def add_includes_def add_env_vars_def
      add_variables_def add_connections_def add_pools_def add_requirements_def add_pool_def
      conn_foo_def conn_bar_def pool_foo_def)

section \<open>Comparing two projects\<close>

text \<open>
  Claim C7. \<^verbatim>\<open>__eq__\<close> compares the rendered text of the DAGs and the requirements, pools,
  connections, variables and env vars; the includes are not among the comparisons, so
  replacing the includes of one side never changes the answer. A project holding the
  include \<^verbatim>\<open>foo.txt\<close> compares equal to the empty project, though their includes differ.
  And where one project has a DAG id the other lacks, the subscript raises \<^verbatim>\<open>KeyError\<close>
  instead of the comparison answering \<^verbatim>\<open>False\<close>.
\<close>

theorem project_eq_ignores_includes:
  "project_eq ops self (other\<lparr>includes' := incs\<rparr>) = project_eq ops self other
   \<and> project_eq replacing_ops (snd (add_includes (Single include_foo) OrbiterProject_init))
        OrbiterProject_init = Inr True
   \<and> includes' (snd (add_includes (Single include_foo) OrbiterProject_init))
        \<noteq> includes' OrbiterProject_init
   \<and> project_eq replacing_ops (OrbiterProject_init\<lparr>dags := [(''foo'', doctest_dag Prim)]\<rparr>)
        OrbiterProject_init = Inl (KeyError ''foo'')"
proof -
  have "project_eq ops self (other\<lparr>includes' := incs\<rparr>) = project_eq ops self other"
    by (simp add: project_eq_def split: sum.splits)
  moreover have "project_eq replacing_ops (snd (add_includes (Single include_foo) OrbiterProject_init))
        OrbiterProject_init = Inr True"
    by (simp add: project_eq_def add_includes_def validate_call_def OrbiterProject_init_def dict_eq_def)
  moreover have "includes' (snd (add_includes (Single include_foo) OrbiterProject_init))
        \<noteq> includes' OrbiterProject_init"
    by (simp add: add_includes_def validate_call_def OrbiterProject_init_def)
  moreover have "project_eq replacing_ops (OrbiterProject_init\<lparr>dags := [(''foo'', doctest_dag Prim)]\<rparr>)
        OrbiterProject_init = Inl (KeyError ''foo'')"
    by (simp add: project_eq_def OrbiterProject_init_def)
  ultimately show ?thesis by blast
qed

lemma perform_all_complete:
  "fst (perform_all ops es fs) = None \<Longrightarrow> snd (snd (perform_all ops es fs)) = es"
proof (induction es arbitrary: fs)
  case Nil
  then show ?case by simp
next
  case (Cons e es)
  from Cons.prems Cons.IH [of "snd (perform ops e fs)"] show ?case
    by (auto split: prod.splits option.splits)
qed

lemma render_requirements_manifest:
  "render_requirements self out
     = (if \<exists>r\<in>set (requirements self). truthy (package r)
        then [WriteText (slash out ''requirements.txt'')
               (join newline (sorted_list_of_set
                  {s. s \<noteq> [] \<and> (\<exists>r\<in>set (requirements self). package r = Some s)}))]
        else [])"
  by (simp add: render_requirements_def filter_nonempty manifest_sorted_set)

lemma render_packages_manifest:
  "render_packages self out
     = (if \<exists>r\<in>set (requirements self). truthy (sys_package r)
        then [WriteText (slash out ''packages.txt'')
               (join newline (sorted_list_of_set
                  {s. s \<noteq> [] \<and> (\<exists>r\<in>set (requirements self). sys_package r = Some s)}))]
        else [])"
  by (simp add: render_packages_def filter_nonempty manifest_sorted_set)

lemma render_complete:
  assumes "fst (render ops self out fs) = None"
  shows "snd (snd (render ops self out fs))
     = render_dags ops self out @ render_requirements self out @ render_packages self out
       @ render_settings ops self out @ render_includes ops self out @ render_env ops self out"
proof -
  from assms have "dags self \<noteq> []" by (auto simp: render_def)
  with assms show ?thesis by (simp add: render_def perform_all_complete)
qed

section \<open>Rendering is deterministic\<close>

text \<open>
  Claim C8. \<^verbatim>\<open>render\<close> reads the project, the output directory and the file system, and
  nothing else. The one collection whose iteration order Python leaves open is the set of
  requirements, and nothing \<^verbatim>\<open>render\<close> does depends on it: two projects that differ only
  in the order (or repetition) in which the same requirements are iterated give, on the
  same file system, the same exception or none, the same file system afterwards and the
  same operations performed. When \<^verbatim>\<open>render\<close> completes, what it has done is, in this order:
  written the DAG files; written \<^verbatim>\<open>requirements.txt\<close>, exactly when some requirement has a
  non-empty package, with the newline-joined, sorted list, without duplicates, of the
  non-empty package names; written \<^verbatim>\<open>packages.txt\<close> in the same way from the system
  packages; written the settings document, the includes and \<^verbatim>\<open>.env\<close>. And two invocations
  on the same project that both complete, on whatever file systems (the second, say, on
  the one the first left behind), have written the same texts to the same paths in the
  same order.
\<close>

theorem render_deterministic:
  "(set rs = set rs' \<longrightarrow>
      render ops (self\<lparr>requirements := rs\<rparr>) out fs = render ops (self\<lparr>requirements := rs'\<rparr>) out fs)
   \<and> (fst (render ops self out fs) = None \<longrightarrow>
        snd (snd (render ops self out fs))
          = render_dags ops self out
            @ (if \<exists>r\<in>set (requirements self). truthy (package r)
               then [WriteText (slash out ''requirements.txt'')
                      (join newline (sorted_list_of_set
                         {s. s \<noteq> [] \<and> (\<exists>r\<in>set (requirements self). package r = Some s)}))]
               else [])
            @ (if \<exists>r\<in>set (requirements self). truthy (sys_package r)
               then [WriteText (slash out ''packages.txt'')
                      (join newline (sorted_list_of_set
                         {s. s \<noteq> [] \<and> (\<exists>r\<in>set (requirements self). sys_package r = Some s)}))]
               else [])
            @ render_settings ops self out @ render_includes ops self out @ render_env ops self out)
   \<and> (fst (render ops self out fs) = None \<and> fst (render ops self out fs') = None \<longrightarrow>
        snd (snd (render ops self out fs)) = snd (snd (render ops self out fs')))"
proof -
  have order: "render ops (self\<lparr>requirements := rs\<rparr>) out fs = render ops (self\<lparr>requirements := rs'\<rparr>) out fs"
    if "set rs = set rs'"
  proof -
    have "render_requirements (self\<lparr>requirements := rs\<rparr>) out
            = render_requirements (self\<lparr>requirements := rs'\<rparr>) out"
      "render_packages (self\<lparr>requirements := rs\<rparr>) out
            = render_packages (self\<lparr>requirements := rs'\<rparr>) out"
      using that manifest_cong [OF that]
      by (simp_all add: render_requirements_def render_packages_def filter_nonempty)
    moreover have "render_dags ops (self\<lparr>requirements := rs\<rparr>) out
            = render_dags ops (self\<lparr>requirements := rs'\<rparr>) out"
      "render_settings ops (self\<lparr>requirements := rs\<rparr>) out
            = render_settings ops (self\<lparr>requirements := rs'\<rparr>) out"
      "render_includes ops (self\<lparr>requirements := rs\<rparr>) out
            = render_includes ops (self\<lparr>requirements := rs'\<rparr>) out"
      "render_env ops (self\<lparr>requirements := rs\<rparr>) out
            = render_env ops (self\<lparr>requirements := rs'\<rparr>) out"
      by (simp_all add: render_dags_def render_settings_def render_includes_def render_env_def)
    ultimately show ?thesis by (simp add: render_def)
  qed
  have written: "snd (snd (render ops self out fs))
          = render_dags ops self out
            @ (if \<exists>r\<in>set (requirements self). truthy (package r)
               then [WriteText (slash out ''requirements.txt'')
                      (join newline (sorted_list_of_set
                         {s. s \<noteq> [] \<and> (\<exists>r\<in>set (requirements self). package r = Some s)}))]
               else [])
            @ (if \<exists>r\<in>set (requirements self). truthy (sys_package r)
               then [WriteText (slash out ''packages.txt'')
                      (join newline (sorted_list_of_set
                         {s. s \<noteq> [] \<and> (\<exists>r\<in>set (requirements self). sys_package r = Some s)}))]
               else [])
            @ render_settings ops self out @ render_includes ops self out @ render_env ops self out"
    if "fst (render ops self out fs) = None"
    unfolding render_complete [OF that] render_requirements_manifest render_packages_manifest ..
  have same: "snd (snd (render ops self out fs)) = snd (snd (render ops self out fs'))"
    if "fst (render ops self out fs) = None" "fst (render ops self out fs') = None"
    using that by (simp add: render_complete)
  from order written same show ?thesis by blast
qed

theorem render_deterministic_witness:
  "render replacing_ops (foo_project [req_bash, req_smtp, req_dag]) (Path False [''out'']) empty_disk
     = render replacing_ops (foo_project [req_dag, req_smtp, req_bash]) (Path False [''out'']) empty_disk
   \<and> fst (render replacing_ops (foo_project [req_bash, req_smtp, req_dag]) (Path False [''out''])
        empty_disk) = None
   \<and> WriteText (Path False [''out'', ''requirements.txt''])
        (''apache-airflow'' @ newline @ ''apache-airflow-providers-smtp'')
       \<in> set (snd (snd (render replacing_ops (foo_project [req_bash, req_smtp, req_dag])
            (Path False [''out'']) empty_disk)))
   \<and> map_of (nodes (fst (snd (render replacing_ops (foo_project [req_bash, req_smtp, req_dag])
        (Path False [''out'']) empty_disk)))) [''out'', ''requirements.txt'']
       = Some (File (''apache-airflow'' @ newline @ ''apache-airflow-providers-smtp''))"
proof -
  have s: "set [req_bash, req_smtp, req_dag] = set [req_dag, req_smtp, req_bash]" by auto
  have "render replacing_ops ((foo_project [])\<lparr>requirements := [req_bash, req_smtp, req_dag]\<rparr>)
          (Path False [''out'']) empty_disk
     = render replacing_ops ((foo_project [])\<lparr>requirements := [req_dag, req_smtp, req_bash]\<rparr>)
          (Path False [''out'']) empty_disk"
    using render_deterministic [THEN conjunct1, rule_format, OF s] .
  then have "render replacing_ops (foo_project [req_bash, req_smtp, req_dag]) (Path False [''out'']) empty_disk
     = render replacing_ops (foo_project [req_dag, req_smtp, req_bash]) (Path False [''out'']) empty_disk"
    by (simp add: foo_project_def)
  moreover have "fst (render replacing_ops (foo_project [req_bash, req_smtp, req_dag]) (Path False [''out''])
        empty_disk) = None"
    by code_simp
  moreover have "WriteText (Path False [''out'', ''requirements.txt''])
        (''apache-airflow'' @ newline @ ''apache-airflow-providers-smtp'')
       \<in> set (snd (snd (render replacing_ops (foo_project [req_bash, req_smtp, req_dag])
            (Path False [''out'']) empty_disk)))"
    by code_simp
  moreover have "map_of (nodes (fst (snd (render replacing_ops (foo_project [req_bash, req_smtp, req_dag])
        (Path False [''out'']) empty_disk)))) [''out'', ''requirements.txt'']
       = Some (File (''apache-airflow'' @ newline @ ''apache-airflow-providers-smtp''))"
    by code_simp
  ultimately show ?thesis by blast
qed

section \<open>Facts about the walk\<close>





























































section \<open>Termination and depth of the walk\<close>




section \<open>What adding a DAG leaves in the project\<close>












section \<open>Adding the same entity twice\<close>




end
